theory Spec2Isabelle
  imports Main "HOL-Library.Multiset"
begin

section \<open>Configuration (the part of \<open>StripeModuleConfig\<close> the module reads)\<close>

text \<open>
  \<open>stripe.interfaces\<close> is not among the sources; the records below hold exactly the
  fields that \<open>stripe.module.ts\<close> and \<open>stripe.payload.service.ts\<close> read. An optional
  field of the TypeScript type is an \<open>option\<close>: \<open>None\<close> is \<open>undefined\<close>.
\<close>

record StripeSecrets =
  account :: "string option"
  connect :: "string option"

record LoggingConfiguration =
  logMatchingEventHandlers :: "bool option"

record WebhookConfig =
  stripeSecrets :: StripeSecrets
  loggingConfiguration :: "LoggingConfiguration option"

record StripeModuleConfig =
  webhookConfig :: "WebhookConfig option"

text \<open>
  JavaScript truthiness of an optional string: \<open>undefined\<close> and the empty string are
  falsy, every other string is truthy. \<open>s || ''\<close> is \<open>or_empty s\<close>.
\<close>

fun truthy :: "string option \<Rightarrow> bool" where
  "truthy None = False"
| "truthy (Some s) = (s \<noteq> [])"

fun truthy_flag :: "bool option \<Rightarrow> bool" where
  "truthy_flag None = False"
| "truthy_flag (Some b) = b"

definition or_empty :: "string option \<Rightarrow> string" where
  "or_empty s = (if truthy s then the s else [])"

section \<open>\<open>stripe.payload.service.ts\<close>\<close>

text \<open>
  The two private fields of \<open>StripePayloadService\<close>, set by its constructor from
  \<open>config.webhookConfig?.stripeSecrets.account || ''\<close> and the same for \<open>connect\<close>.
\<close>

record StripePayloadService =
  stripeWebhookSecret :: string
  stripeConnectWebhookSecret :: string

definition new_StripePayloadService :: "StripeModuleConfig \<Rightarrow> StripePayloadService" where
  "new_StripePayloadService config =
     \<lparr> stripeWebhookSecret =
         or_empty (case webhookConfig config of None \<Rightarrow> None
                   | Some wc \<Rightarrow> account (stripeSecrets wc)),
       stripeConnectWebhookSecret =
         or_empty (case webhookConfig config of None \<Rightarrow> None
                   | Some wc \<Rightarrow> connect (stripeSecrets wc)) \<rparr>"

text \<open>
  \<open>tryHydratePayload(signature, payload, webhookType)\<close>. The verifier
  \<open>stripeClient.webhooks.constructEvent\<close> belongs to the Stripe client library and is a
  parameter; it receives \<open>(payload, signature, secret)\<close>. The TypeScript type of
  \<open>webhookType\<close> is erased at run time, so the argument is any string and the test is
  the source's \<open>webhookType === "account"\<close>.
\<close>

definition tryHydratePayload ::
  "(string \<Rightarrow> string \<Rightarrow> string \<Rightarrow> 'r) \<Rightarrow> StripePayloadService
     \<Rightarrow> string \<Rightarrow> string \<Rightarrow> string \<Rightarrow> 'r" where
  "tryHydratePayload constructEvent this signature payload webhookType =
     constructEvent payload signature
       (if webhookType = ''account'' then stripeWebhookSecret this
        else stripeConnectWebhookSecret this)"

section \<open>What the module asks of its injected collaborators\<close>

text \<open>
  The module's constructor receives a \<open>DiscoveryService\<close> and an \<open>ExternalContextCreator\<close>.
  Neither is defined in the module; both are modelled at the interface the module uses.

  The three metadata keys of \<open>stripe.constants\<close> are pairwise different values.
\<close>

datatype marker =
  STRIPE_WEBHOOK_SERVICE | STRIPE_WEBHOOK_HANDLER | STRIPE_CONNECT_WEBHOOK_HANDLER

text \<open>
  A live object: its identity, and whether \<open>instanceof StripeWebhookService\<close> holds of it.
\<close>

record Instance =
  oid :: nat
  instanceof_StripeWebhookService :: bool

text \<open>
  The discovery results, with the fields the module reads. \<open>instance'\<close> is the source's
  \<open>instance\<close> (\<open>None\<close>: no live instance); \<open>method_handler\<close> is the source's
  \<open>discoveredMethod.handler\<close>, the function object of the method, named by a number.
\<close>

record DiscoveredClass =
  name :: string
  instance' :: "Instance option"

record DiscoveredMethod =
  method_handler :: nat
  methodName :: string
  parentClass :: DiscoveredClass

record DiscoveredMethodWithMeta =
  discoveredMethod :: DiscoveredMethod
  meta :: string

record DiscoveredClassWithMeta =
  discoveredClass :: DiscoveredClass

text \<open>
  The injected discovery service. \<open>providersWithMetaAtKey\<close> may answer with a falsy value
  (\<open>None\<close>), which the module replaces by the empty list (\<open>|| []\<close>).
\<close>

record DiscoveryService =
  providersWithMetaAtKey :: "marker \<Rightarrow> DiscoveredClassWithMeta list option"
  providerMethodsWithMetaAtKey :: "marker \<Rightarrow> DiscoveredMethodWithMeta list"

text \<open>
  The callable that \<open>externalContextCreator.create(instance, callback, methodName, ...,
  'stripe_webhook')\<close> returns, as the data it closes over. The source gets a new
  callable from every call; here a callable is identified by what it closes over, so
  two calls with the same arguments give the same value. The library's own checks of
  its arguments are not modelled.
\<close>

record BoundHandler =
  bound_instance :: "Instance option"
  bound_callback :: nat
  bound_methodName :: string

definition create :: "Instance option \<Rightarrow> nat \<Rightarrow> string \<Rightarrow> BoundHandler" where
  "create inst callback mname =
     \<lparr> bound_instance = inst, bound_callback = callback, bound_methodName = mname \<rparr>"

text \<open>One element of \<open>webhookHandlers\<close> / \<open>ConnectWebhookHandlers\<close>: \<open>{ key, handler }\<close>.\<close>

record HandlerBinding =
  key :: string
  handler :: BoundHandler

section \<open>\<open>onModuleInit\<close>\<close>

text \<open>
  Everything \<open>onModuleInit\<close> does to the outside, in the order it does it.
\<close>

datatype effect =
    Logger_error string
  | Logger_log string
  | Call_providersWithMetaAtKey marker
  | Call_providerMethodsWithMetaAtKey marker
  | Call_create BoundHandler
  | Assign_handleWebhook
  | Assign_handleConnectWebhook

text \<open>
  lodash's \<open>groupBy(xs, f)\<close> as the list of its \<open>(key, group)\<close> pairs, in the order
  \<open>Object.keys\<close> lists them: a key appears where its first element appears, and a group
  keeps the order of the input. This is the insertion order that \<open>Object.keys\<close> follows
  for keys that are not array indices; a class whose name is an integer-like string
  would be listed before the others. No statement below depends on the order of the
  groups.
\<close>

fun groupBy :: "('a \<Rightarrow> string) \<Rightarrow> 'a list \<Rightarrow> (string \<times> 'a list) list" where
  "groupBy f [] = []"
| "groupBy f (x # xs) =
     (f x, x # filter (\<lambda>y. f y = f x) xs) # groupBy f (filter (\<lambda>y. f y \<noteq> f x) xs)"

text \<open>
  The callback of \<open>Object.keys(grouped).map\<close>, for the class name \<open>x\<close> and its group
  \<open>grouped[x]\<close>: one log line, then one \<open>{ key, handler }\<close> per discovered method, each with
  a call of \<open>externalContextCreator.create\<close>. \<open>label\<close> is the text before the class name.
\<close>

definition bind_method :: "DiscoveredMethodWithMeta \<Rightarrow> HandlerBinding" where
  "bind_method m =
     \<lparr> key = meta m,
       handler = create (instance' (parentClass (discoveredMethod m)))
                   (method_handler (discoveredMethod m))
                   (methodName (discoveredMethod m)) \<rparr>"

definition register_class ::
  "string \<Rightarrow> string \<times> DiscoveredMethodWithMeta list \<Rightarrow> effect list \<times> HandlerBinding list" where
  "register_class label g =
     (Logger_log (label @ fst g) # map (\<lambda>m. Call_create (handler (bind_method m))) (snd g),
      map bind_method (snd g))"

text \<open>
  \<open>flatten(Object.keys(grouped).map(...))\<close> with its effects: the two passes of the source
  are the same text but for the log label.
\<close>

definition register_all ::
  "string \<Rightarrow> DiscoveredMethodWithMeta list \<Rightarrow> effect list \<times> HandlerBinding list" where
  "register_all label eventHandlerMeta =
     (let grouped = groupBy (\<lambda>x. name (parentClass (discoveredMethod x))) eventHandlerMeta;
          per_class = map (register_class label) grouped
      in (concat (map fst per_class), concat (map snd per_class)))"

definition webhookHandlers :: "DiscoveryService \<Rightarrow> effect list \<times> HandlerBinding list" where
  "webhookHandlers discover =
     register_all ''Registering Stripe webhook handlers from ''
       (providerMethodsWithMetaAtKey discover STRIPE_WEBHOOK_HANDLER)"

definition ConnectWebhookHandlers :: "DiscoveryService \<Rightarrow> effect list \<times> HandlerBinding list" where
  "ConnectWebhookHandlers discover =
     register_all ''Registering Stripe Connect webhook handlers from ''
       (providerMethodsWithMetaAtKey discover STRIPE_CONNECT_WEBHOOK_HANDLER)"

text \<open>
  How \<open>onModuleInit\<close> ends: it returns at once (no webhook configuration), it throws, or
  it runs to its end, having assigned to the webhook service found \<open>handleWebhook\<close> (the
  closure over the first table) and \<open>handleConnectWebhook\<close> (the closure over the second).
\<close>

datatype init_outcome =
    Returned_early
  | Threw string
  | Completed Instance "HandlerBinding list" "HandlerBinding list"

record init_result =
  effects :: "effect list"
  outcome :: init_outcome

definition missing_secret_message :: string where
  "missing_secret_message =
     ''missing stripe webhook secret. module is improperly configured and will be unable to process incoming webhooks from Stripe''"

definition no_service_message :: string where
  "no_service_message = ''Could not find instance of Stripe Webhook Service''"

text \<open>
  \<open>const [stripeWebhookService] = (found || []).map((x) => x.discoveredClass.instance)\<close>:
  the instance of the first provider found, \<open>undefined\<close> when there is none.
\<close>

definition first_instance :: "DiscoveredClassWithMeta list option \<Rightarrow> Instance option" where
  "first_instance found =
     (case map (\<lambda>x. instance' (discoveredClass x)) (case found of None \<Rightarrow> [] | Some xs \<Rightarrow> xs) of
        [] \<Rightarrow> None
      | x # _ \<Rightarrow> x)"

definition onModuleInit :: "DiscoveryService \<Rightarrow> StripeModuleConfig \<Rightarrow> init_result" where
  "onModuleInit discover stripeModuleConfig =
     (case webhookConfig stripeModuleConfig of
        None \<Rightarrow> \<lparr> effects = [], outcome = Returned_early \<rparr>
      | Some wc \<Rightarrow>
          if \<not> truthy (account (stripeSecrets wc)) \<and> \<not> truthy (connect (stripeSecrets wc))
          then \<lparr> effects = [Logger_error missing_secret_message],
                 outcome = Threw missing_secret_message \<rparr>
          else
            let searching = [Logger_log ''Initializing Stripe Module for webhooks'',
                             Call_providersWithMetaAtKey STRIPE_WEBHOOK_SERVICE];
                stripeWebhookService =
                  first_instance (providersWithMetaAtKey discover STRIPE_WEBHOOK_SERVICE)
            in (case stripeWebhookService of
                 None \<Rightarrow> \<lparr> effects = searching, outcome = Threw no_service_message \<rparr>
               | Some service \<Rightarrow>
                   if \<not> instanceof_StripeWebhookService service
                   then \<lparr> effects = searching, outcome = Threw no_service_message \<rparr>
                   else
                     let primary = webhookHandlers discover;
                         secondary = ConnectWebhookHandlers discover
                     in \<lparr> effects =
                            searching
                            @ [Call_providerMethodsWithMetaAtKey STRIPE_WEBHOOK_HANDLER]
                            @ fst primary
                            @ [Assign_handleWebhook]
                            @ [Call_providerMethodsWithMetaAtKey STRIPE_CONNECT_WEBHOOK_HANDLER]
                            @ fst secondary
                            @ [Assign_handleConnectWebhook],
                          outcome = Completed service (snd primary) (snd secondary) \<rparr>))"

section \<open>Promises and the bound handlers\<close>

text \<open>
  A webhook event as the dispatch functions see it: \<open>{ type: string }\<close>, possibly with
  more fields (the record is extensible).
\<close>

record Event =
  type :: string

text \<open>
  A promise is described by how it ends on the clock of one dispatch call (tick \<open>0\<close> is
  the call): it stays pending for ever, or it settles at some tick, fulfilled or
  rejected with a reason. Nothing in the module cancels a promise.
\<close>

datatype settlement = Fulfilled | Rejected string

datatype promise = Pending | Settled nat settlement

text \<open>
  Handler bodies are application code: \<open>methods inst callback event\<close> is what the method
  \<open>callback\<close> does when applied to \<open>inst\<close> and the event. It throws before returning, or it
  returns a promise (a plain value counts as a promise fulfilled at once).
\<close>

datatype method_result = Throws string | Returns promise

type_synonym methods = "Instance option \<Rightarrow> nat \<Rightarrow> Event \<Rightarrow> method_result"

text \<open>
  Calling a bound handler. The callable made by \<open>externalContextCreator.create\<close> is an
  \<open>async\<close> function around \<open>callback.apply(instance, args)\<close>: the call itself never throws,
  and an exception of the method is the rejection of the promise returned.
\<close>

definition call_handler :: "methods \<Rightarrow> BoundHandler \<Rightarrow> Event \<Rightarrow> promise" where
  "call_handler user h event =
     (case user (bound_instance h) (bound_callback h) event of
        Throws e \<Rightarrow> Settled 0 (Rejected e)
      | Returns p \<Rightarrow> p)"

text \<open>
  \<open>Promise.all\<close>: rejected as soon as one of its promises is rejected, with that reason
  (of two rejections at the same tick, which a tick does not order, the one earlier in
  the list is taken; no statement below depends on that choice); otherwise
  fulfilled once every promise is fulfilled; pending for ever otherwise.
\<close>

fun first_rejection :: "promise list \<Rightarrow> (nat \<times> string) option" where
  "first_rejection [] = None"
| "first_rejection (Settled t (Rejected e) # ps) =
     (case first_rejection ps of
        None \<Rightarrow> Some (t, e)
      | Some (t', e') \<Rightarrow> if t' < t then Some (t', e') else Some (t, e))"
| "first_rejection (Settled t Fulfilled # ps) = first_rejection ps"
| "first_rejection (Pending # ps) = first_rejection ps"

fun all_fulfilled_by :: "promise list \<Rightarrow> nat option" where
  "all_fulfilled_by [] = Some 0"
| "all_fulfilled_by (Settled t Fulfilled # ps) = map_option (max t) (all_fulfilled_by ps)"
| "all_fulfilled_by (Settled t (Rejected e) # ps) = None"
| "all_fulfilled_by (Pending # ps) = None"

definition Promise_all :: "promise list \<Rightarrow> promise" where
  "Promise_all ps =
     (case first_rejection ps of
        Some (t, e) \<Rightarrow> Settled t (Rejected e)
      | None \<Rightarrow>
          (case all_fulfilled_by ps of
             Some t \<Rightarrow> Settled t Fulfilled
           | None \<Rightarrow> Pending))"

section \<open>The dispatch functions \<open>handleWebhook\<close> and \<open>ConnectHandleWebhook\<close>\<close>

text \<open>Decimal digits of a number, for \<open>${handlers.length}\<close> in the log line.\<close>

fun string_of_nat :: "nat \<Rightarrow> string" where
  "string_of_nat n =
     (if n < 10 then [char_of (48 + n)]
      else string_of_nat (n div 10) @ [char_of (48 + n mod 10)])"

declare string_of_nat.simps [simp del]

text \<open>
  \<open>this.stripeModuleConfig?.webhookConfig?.loggingConfiguration?.logMatchingEventHandlers\<close>
  as a condition.
\<close>

definition logMatching :: "StripeModuleConfig \<Rightarrow> bool" where
  "logMatching stripeModuleConfig =
     (case webhookConfig stripeModuleConfig of
        None \<Rightarrow> False
      | Some wc \<Rightarrow>
          (case loggingConfiguration wc of
             None \<Rightarrow> False
           | Some lc \<Rightarrow> truthy_flag (logMatchingEventHandlers lc)))"

text \<open>
  What one dispatch call does before it suspends, in order (\<open>Log\<close>: a line written to
  the logger; \<open>Invoke\<close>: a bound handler is called with the event; \<open>Await\<close>: the function
  suspends on \<open>await Promise.all(...)\<close>), and how the promise it returns ends.
\<close>

datatype action = Log string | Invoke BoundHandler | Await

record dispatch =
  actions :: "action list"
  completion :: promise

text \<open>
  The two closures of \<open>onModuleInit\<close>, with what they close over as parameters: the
  configuration, the table, and the application's methods behind the bound handlers.
\<close>

definition handleWebhook ::
  "StripeModuleConfig \<Rightarrow> methods \<Rightarrow> HandlerBinding list \<Rightarrow> Event \<Rightarrow> dispatch" where
  "handleWebhook stripeModuleConfig user table webhookEvent =
     (let handlers = filter (\<lambda>x. key x = type webhookEvent) table
      in if length handlers \<noteq> 0
         then \<lparr> actions =
                  (if logMatching stripeModuleConfig
                   then [Log (''Received webhook event for '' @ type webhookEvent
                              @ ''. Forwarding to '' @ string_of_nat (length handlers)
                              @ '' event handlers'')]
                   else [])
                  @ map (\<lambda>x. Invoke (handler x)) handlers
                  @ [Await],
                completion =
                  Promise_all (map (\<lambda>x. call_handler user (handler x) webhookEvent) handlers) \<rparr>
         else \<lparr> actions = [], completion = Settled 0 Fulfilled \<rparr>)"

definition ConnectHandleWebhook ::
  "StripeModuleConfig \<Rightarrow> methods \<Rightarrow> HandlerBinding list \<Rightarrow> Event \<Rightarrow> dispatch" where
  "ConnectHandleWebhook stripeModuleConfig user table webhookEvent =
     (let handlers = filter (\<lambda>x. key x = type webhookEvent) table
      in if length handlers \<noteq> 0
         then \<lparr> actions =
                  (if logMatching stripeModuleConfig
                   then [Log (''Received connect webhook event for '' @ type webhookEvent
                              @ ''. Forwarding to '' @ string_of_nat (length handlers)
                              @ '' event handlers'')]
                   else [])
                  @ map (\<lambda>x. Invoke (handler x)) handlers
                  @ [Await],
                completion =
                  Promise_all (map (\<lambda>x. call_handler user (handler x) webhookEvent) handlers) \<rparr>
         else \<lparr> actions = [], completion = Settled 0 Fulfilled \<rparr>)"

text \<open>The handlers called by a dispatch, in the order of the calls.\<close>

fun invoked :: "action list \<Rightarrow> BoundHandler list" where
  "invoked [] = []"
| "invoked (Invoke h # as) = h # invoked as"
| "invoked (Log s # as) = invoked as"
| "invoked (Await # as) = invoked as"

section \<open>Concrete configurations, discovery results and handlers\<close>

text \<open>
  A webhook service and an application component \<open>BillingService\<close> with two methods,
  as the discovery service reports them.
\<close>

definition webhook_service :: Instance where
  "webhook_service = \<lparr> oid = 0, instanceof_StripeWebhookService = True \<rparr>"

definition billing :: Instance where
  "billing = \<lparr> oid = 1, instanceof_StripeWebhookService = False \<rparr>"

definition service_class :: DiscoveredClass where
  "service_class = \<lparr> name = ''StripeWebhookService'', instance' = Some webhook_service \<rparr>"

definition billing_class :: DiscoveredClass where
  "billing_class = \<lparr> name = ''BillingService'', instance' = Some billing \<rparr>"

definition onCharge :: DiscoveredMethod where
  "onCharge = \<lparr> method_handler = 10, methodName = ''onCharge'', parentClass = billing_class \<rparr>"

definition onConnectCharge :: DiscoveredMethod where
  "onConnectCharge =
     \<lparr> method_handler = 11, methodName = ''onConnectCharge'', parentClass = billing_class \<rparr>"

text \<open>Only the primary secret is configured: \<open>{ account: 'whsec_a' }\<close>.\<close>

definition account_only :: StripeModuleConfig where
  "account_only =
     \<lparr> webhookConfig = Some \<lparr> stripeSecrets = \<lparr> account = Some ''whsec_a'', connect = None \<rparr>,
                              loggingConfiguration = None \<rparr> \<rparr>"

text \<open>A webhook configuration with no secret, and no webhook configuration.\<close>

definition no_secrets :: StripeModuleConfig where
  "no_secrets =
     \<lparr> webhookConfig = Some \<lparr> stripeSecrets = \<lparr> account = None, connect = None \<rparr>,
                              loggingConfiguration = None \<rparr> \<rparr>"

definition no_webhooks :: StripeModuleConfig where
  "no_webhooks = \<lparr> webhookConfig = None \<rparr>"

text \<open>
  \<open>BillingService.onCharge\<close> carries the primary marker and \<open>BillingService.onConnectCharge\<close>
  the connect marker, both with the event type \<open>charge.succeeded\<close>.
\<close>

definition one_of_each :: DiscoveryService where
  "one_of_each =
     \<lparr> providersWithMetaAtKey =
         (\<lambda>k. if k = STRIPE_WEBHOOK_SERVICE then Some [\<lparr> discoveredClass = service_class \<rparr>]
              else Some []),
       providerMethodsWithMetaAtKey =
         (\<lambda>k. if k = STRIPE_WEBHOOK_HANDLER
              then [\<lparr> discoveredMethod = onCharge, meta = ''charge.succeeded'' \<rparr>]
              else if k = STRIPE_CONNECT_WEBHOOK_HANDLER
              then [\<lparr> discoveredMethod = onConnectCharge, meta = ''charge.succeeded'' \<rparr>]
              else []) \<rparr>"

text \<open>No provider carries the webhook-service marker.\<close>

definition no_service :: DiscoveryService where
  "no_service =
     \<lparr> providersWithMetaAtKey = (\<lambda>k. Some []),
       providerMethodsWithMetaAtKey =
         (\<lambda>k. if k = STRIPE_WEBHOOK_HANDLER
              then [\<lparr> discoveredMethod = onCharge, meta = ''charge.succeeded'' \<rparr>]
              else []) \<rparr>"

text \<open>A table with two handlers for \<open>invoice.paid\<close> and one for \<open>charge.succeeded\<close>.\<close>

definition first_paid :: BoundHandler where
  "first_paid = create (Some billing) 20 ''onPaid''"

definition second_paid :: BoundHandler where
  "second_paid = create (Some billing) 21 ''alsoOnPaid''"

definition three_bindings :: "HandlerBinding list" where
  "three_bindings =
     [\<lparr> key = ''invoice.paid'', handler = first_paid \<rparr>,
      \<lparr> key = ''charge.succeeded'', handler = create (Some billing) 10 ''onCharge'' \<rparr>,
      \<lparr> key = ''invoice.paid'', handler = second_paid \<rparr>]"

definition invoice_paid :: Event where
  "invoice_paid = \<lparr> type = ''invoice.paid'' \<rparr>"

text \<open>
  Application code in which method 20 throws and every other method fulfils at tick 3;
  and application code in which method 20 rejects at tick 1 and every other method
  fulfils at tick 5; and application code in which every method fulfils, method 20 at
  tick 2 and the others at tick 4.
\<close>

definition one_throws :: methods where
  "one_throws inst callback event =
     (if callback = 20 then Throws ''boom'' else Returns (Settled 3 Fulfilled))"

definition one_rejects_early :: methods where
  "one_rejects_early inst callback event =
     (if callback = 20 then Returns (Settled 1 (Rejected ''declined''))
      else Returns (Settled 5 Fulfilled))"

definition all_succeed :: methods where
  "all_succeed inst callback event =
     (if callback = 20 then Returns (Settled 2 Fulfilled) else Returns (Settled 4 Fulfilled))"

section \<open>Secret selection of the payload service\<close>

text \<open>
  Claim C10. For every \<open>webhookType\<close>, \<open>tryHydratePayload\<close> passes to the verifier the
  account secret when \<open>webhookType\<close> is \<open>account\<close> and the connect secret for every other
  value; the secret passed is the configured one when it is a non-empty string, and the
  empty string when it is absent (or when no webhook configuration exists at all), so
  the verifier is still called, with an empty secret, for an unconfigured namespace.
\<close>

theorem tryHydratePayload_secret:
  "tryHydratePayload constructEvent (new_StripePayloadService config) signature payload webhookType =
     constructEvent payload signature
       (case webhookConfig config of
          None \<Rightarrow> []
        | Some wc \<Rightarrow>
            (case (if webhookType = ''account'' then account (stripeSecrets wc)
                   else connect (stripeSecrets wc)) of
               None \<Rightarrow> []
             | Some s \<Rightarrow> s))"
  by (simp add: tryHydratePayload_def new_StripePayloadService_def or_empty_def
           split: option.splits)

section \<open>Auxiliary facts\<close>

subsection \<open>\<open>Promise.all\<close>\<close>

lemma first_rejection_None:
  "first_rejection ps = None \<longleftrightarrow> (\<forall>t e. Settled t (Rejected e) \<notin> set ps)"
  by (induction ps rule: first_rejection.induct) (auto split: option.splits)

lemma first_rejection_mem:
  "first_rejection ps = Some (t, e) \<Longrightarrow> Settled t (Rejected e) \<in> set ps"
  by (induction ps arbitrary: t e rule: first_rejection.induct)
     (auto split: option.splits if_splits)

lemma first_rejection_least:
  "first_rejection ps = Some (t, e) \<Longrightarrow> Settled u (Rejected e') \<in> set ps \<Longrightarrow> t \<le> u"
proof (induction ps arbitrary: t e rule: first_rejection.induct)
  case (2 t0 e0 ps)
  show ?case
  proof (cases "first_rejection ps")
    case None
    with 2 show ?thesis by (auto simp: first_rejection_None)
  next
    case (Some a)
    obtain t' e'' where a: "a = (t', e'')" by (cases a)
    with 2 Some show ?thesis by (fastforce split: if_splits)
  qed
qed auto

lemma all_fulfilled_by_bound:
  "all_fulfilled_by ps = Some t \<Longrightarrow> p \<in> set ps \<Longrightarrow> \<exists>u\<le>t. p = Settled u Fulfilled"
  by (induction ps arbitrary: t rule: all_fulfilled_by.induct) (auto simp: max_def split: if_splits)

lemma all_fulfilled_by_attained:
  "all_fulfilled_by ps = Some t \<Longrightarrow> ps \<noteq> [] \<Longrightarrow> Settled t Fulfilled \<in> set ps"
proof (induction ps arbitrary: t rule: all_fulfilled_by.induct)
  case (2 t0 ps)
  then obtain u where u: "all_fulfilled_by ps = Some u" "t = max t0 u" by auto
  show ?case
  proof (cases "ps = []")
    case True with u show ?thesis by simp
  next
    case False
    with 2 u have "Settled u Fulfilled \<in> set ps" by simp
    with u show ?thesis by (auto simp: max_def)
  qed
qed auto

lemma all_fulfilled_by_total:
  "\<forall>p \<in> set ps. \<exists>u. p = Settled u Fulfilled \<Longrightarrow> \<exists>t. all_fulfilled_by ps = Some t"
  by (induction ps rule: all_fulfilled_by.induct) auto

lemma all_fulfilled_by_no_rejection:
  "all_fulfilled_by ps = Some t \<Longrightarrow> first_rejection ps = None"
  by (induction ps arbitrary: t rule: all_fulfilled_by.induct) auto

lemma Promise_all_Rejected:
  "Promise_all ps = Settled t (Rejected e) \<longleftrightarrow> first_rejection ps = Some (t, e)"
  by (auto simp: Promise_all_def split: option.splits)

lemma Promise_all_Fulfilled:
  "Promise_all ps = Settled t Fulfilled \<longleftrightarrow> all_fulfilled_by ps = Some t"
  by (auto simp: Promise_all_def all_fulfilled_by_no_rejection split: option.splits)

lemma invoked_shape:
  "invoked (map Log ls @ map (\<lambda>x. Invoke (handler x)) hs @ [Await]) = map handler hs"
  by (induction ls) (simp_all add: comp_def, induction hs, simp_all)

lemma filter_by_index:
  "filter P xs = map (\<lambda>i. xs ! i) (filter (\<lambda>i. P (xs ! i)) [0..<length xs])"
proof -
  have "filter P xs = filter P (map (\<lambda>i. xs ! i) [0..<length xs])"
    by (simp add: map_nth)
  also have "\<dots> = map (\<lambda>i. xs ! i) (filter (\<lambda>i. P (xs ! i)) [0..<length xs])"
    by (simp add: filter_map comp_def)
  finally show ?thesis .
qed

subsection \<open>Grouping keeps every discovered method, once\<close>

lemma mset_groupBy: "mset (concat (map snd (groupBy f xs))) = mset xs"
proof (induction f xs rule: groupBy.induct)
  case (1 f) show ?case by simp
next
  case (2 f x xs)
  have "mset (filter (\<lambda>y. f y = f x) xs) + mset (filter (\<lambda>y. f y \<noteq> f x) xs) = mset xs"
    by (induction xs) auto
  with 2 show ?case by (simp add: add.assoc)
qed

lemma register_all_bindings:
  "mset (snd (register_all label ms)) = mset (map bind_method ms)"
proof -
  let ?g = "groupBy (\<lambda>x. name (parentClass (discoveredMethod x))) ms"
  have "snd (register_all label ms) = map bind_method (concat (map snd ?g))"
    by (simp add: register_all_def register_class_def Let_def map_concat comp_def)
  then show ?thesis
    by (simp add: mset_groupBy)
qed

lemma register_single:
  "register_all label [m] = ([Logger_log (label @ name (parentClass (discoveredMethod m))),
                              Call_create (handler (bind_method m))], [bind_method m])"
  by (simp add: register_all_def register_class_def)

subsection \<open>The two dispatch functions have one body\<close>

lemma handleWebhook_unfold:
  assumes "r = handleWebhook cfg user table ev \<or> r = ConnectHandleWebhook cfg user table ev"
      and "hs = filter (\<lambda>x. key x = type ev) table" and "hs \<noteq> []"
  shows "completion r = Promise_all (map (\<lambda>x. call_handler user (handler x) ev) hs)"
    and "\<exists>logs. actions r = map Log logs @ map (\<lambda>x. Invoke (handler x)) hs @ [Await]"
proof -
  show "completion r = Promise_all (map (\<lambda>x. call_handler user (handler x) ev) hs)"
    using assms by (auto simp: handleWebhook_def ConnectHandleWebhook_def Let_def)
  let ?rest = "map (\<lambda>x. Invoke (handler x)) hs @ [Await]"
  from assms have "actions r = map Log [] @ ?rest \<or> (\<exists>l. actions r = map Log [l] @ ?rest)"
    by (auto simp: handleWebhook_def ConnectHandleWebhook_def Let_def)
  then show "\<exists>logs. actions r = map Log logs @ ?rest"
    by blast
qed

lemma handleWebhook_invoked:
  assumes "r = handleWebhook cfg user table ev \<or> r = ConnectHandleWebhook cfg user table ev"
  shows "invoked (actions r) = map handler (filter (\<lambda>x. key x = type ev) table)"
proof (cases "filter (\<lambda>x. key x = type ev) table = []")
  case True
  with assms show ?thesis
    by (auto simp: handleWebhook_def ConnectHandleWebhook_def Let_def)
next
  case False
  from handleWebhook_unfold(2) [OF assms refl False] show ?thesis
    by (auto simp: invoked_shape)
qed

section \<open>Initialization\<close>

text \<open>
  Claim C9. With no webhook configuration at all, \<open>onModuleInit\<close> returns at once and
  without error: it has no effect whatever, so it asks the discovery service nothing
  and assigns neither dispatch function to the webhook service.
\<close>

theorem onModuleInit_no_config:
  "webhookConfig cfg = None \<Longrightarrow>
     onModuleInit discover cfg = \<lparr> effects = [], outcome = Returned_early \<rparr>"
  by (simp add: onModuleInit_def)

text \<open>The configuration \<open>no_webhooks\<close> is such a configuration.\<close>

theorem onModuleInit_no_config_witness:
  "webhookConfig no_webhooks = None \<and>
     onModuleInit one_of_each no_webhooks = \<lparr> effects = [], outcome = Returned_early \<rparr>"
  using onModuleInit_no_config [of no_webhooks one_of_each]
  by (simp add: no_webhooks_def)

text \<open>
  Claim C4. With a webhook configuration in which neither the account secret nor the
  connect secret is present (absent, or the empty string, which JavaScript treats
  alike), \<open>onModuleInit\<close> throws the missing-secret error; its only effect is the error
  line in the log, so no discovery takes place and nothing is assigned.
\<close>

theorem onModuleInit_no_secret:
  assumes "webhookConfig cfg = Some wc"
      and "\<not> truthy (account (stripeSecrets wc))"
      and "\<not> truthy (connect (stripeSecrets wc))"
  shows "onModuleInit discover cfg =
           \<lparr> effects = [Logger_error missing_secret_message],
             outcome = Threw missing_secret_message \<rparr>"
  using assms by (simp add: onModuleInit_def)

text \<open>The configuration \<open>no_secrets\<close> has a webhook configuration and no secret.\<close>

theorem onModuleInit_no_secret_witness:
  "onModuleInit one_of_each no_secrets =
           \<lparr> effects = [Logger_error missing_secret_message],
             outcome = Threw missing_secret_message \<rparr>"
  using onModuleInit_no_secret [of no_secrets "the (webhookConfig no_secrets)" one_of_each]
  by (simp add: no_secrets_def)

text \<open>
  Claim C8. With at least one secret configured, when none of the providers found under
  the webhook-service marker has a live instance that is a \<open>StripeWebhookService\<close> (in
  particular when none is found), \<open>onModuleInit\<close> throws. Its effects until then are the
  log line and the search for the service: no handler method is looked up, no handler
  is bound and nothing is assigned.
\<close>

theorem onModuleInit_no_service:
  assumes "webhookConfig cfg = Some wc"
      and "truthy (account (stripeSecrets wc)) \<or> truthy (connect (stripeSecrets wc))"
      and "\<forall>x \<in> set (case providersWithMetaAtKey discover STRIPE_WEBHOOK_SERVICE of
                        None \<Rightarrow> [] | Some xs \<Rightarrow> xs).
             \<forall>i. instance' (discoveredClass x) = Some i \<longrightarrow> \<not> instanceof_StripeWebhookService i"
  shows "onModuleInit discover cfg =
           \<lparr> effects = [Logger_log ''Initializing Stripe Module for webhooks'',
                        Call_providersWithMetaAtKey STRIPE_WEBHOOK_SERVICE],
             outcome = Threw no_service_message \<rparr>"
proof -
  let ?found = "case providersWithMetaAtKey discover STRIPE_WEBHOOK_SERVICE of
                  None \<Rightarrow> [] | Some xs \<Rightarrow> xs"
  have "\<And>i. first_instance (providersWithMetaAtKey discover STRIPE_WEBHOOK_SERVICE) = Some i
          \<Longrightarrow> \<not> instanceof_StripeWebhookService i"
  proof -
    fix i
    assume h: "first_instance (providersWithMetaAtKey discover STRIPE_WEBHOOK_SERVICE) = Some i"
    then obtain x xs where "?found = x # xs" "instance' (discoveredClass x) = Some i"
      by (cases ?found) (auto simp: first_instance_def)
    with assms(3) show "\<not> instanceof_StripeWebhookService i" by simp
  qed
  with assms(1,2) show ?thesis
    by (auto simp: onModuleInit_def Let_def split: option.splits)
qed

text \<open>The discovery results \<open>no_service\<close> hold a tagged handler but no webhook service.\<close>

theorem onModuleInit_no_service_witness:
  "onModuleInit no_service account_only =
           \<lparr> effects = [Logger_log ''Initializing Stripe Module for webhooks'',
                        Call_providersWithMetaAtKey STRIPE_WEBHOOK_SERVICE],
             outcome = Threw no_service_message \<rparr>"
  using onModuleInit_no_service [of account_only "the (webhookConfig account_only)" no_service]
  by (simp add: account_only_def no_service_def)

text \<open>
  Claim C5. Whenever initialization completes (which needs at least one secret), the
  two discovery passes partition the handlers by marker. Every entry of the primary
  table is the binding the first pass made for a method reported under the
  primary-webhook marker, keyed by that marker's payload, with one entry for each such
  method; every entry of the connect table is the binding the second pass made for a
  method reported under the connect-webhook marker, again one for each. So no entry of
  the primary table stems from the connect marker, and none of the connect table from
  the primary marker. (A method that carries both markers is bound once by each pass,
  each time for that pass's own marker.)
\<close>

theorem tables_follow_their_own_marker:
  assumes "outcome (onModuleInit discover cfg) = Completed service primary secondary"
  shows "mset primary =
           mset (map bind_method (providerMethodsWithMetaAtKey discover STRIPE_WEBHOOK_HANDLER))
         \<and> mset secondary =
           mset (map bind_method
                   (providerMethodsWithMetaAtKey discover STRIPE_CONNECT_WEBHOOK_HANDLER))
         \<and> (\<forall>b \<in> set primary.
               \<exists>m \<in> set (providerMethodsWithMetaAtKey discover STRIPE_WEBHOOK_HANDLER).
                 b = bind_method m)
         \<and> (\<forall>b \<in> set secondary.
               \<exists>m \<in> set (providerMethodsWithMetaAtKey discover STRIPE_CONNECT_WEBHOOK_HANDLER).
                 b = bind_method m)"
proof -
  let ?own = "map bind_method (providerMethodsWithMetaAtKey discover STRIPE_WEBHOOK_HANDLER)"
  let ?other =
    "map bind_method (providerMethodsWithMetaAtKey discover STRIPE_CONNECT_WEBHOOK_HANDLER)"
  from assms have "primary = snd (webhookHandlers discover)"
              and "secondary = snd (ConnectWebhookHandlers discover)"
    by (auto simp: onModuleInit_def Let_def split: option.splits if_splits)
  then have p: "mset primary = mset ?own" and s: "mset secondary = mset ?other"
    by (simp_all add: webhookHandlers_def ConnectWebhookHandlers_def register_all_bindings)
  from p have "set primary = set ?own" by (rule mset_eq_setD)
  then have p': "\<forall>b \<in> set primary.
               \<exists>m \<in> set (providerMethodsWithMetaAtKey discover STRIPE_WEBHOOK_HANDLER).
                 b = bind_method m"
    by auto
  from s have "set secondary = set ?other" by (rule mset_eq_setD)
  then have s': "\<forall>b \<in> set secondary.
               \<exists>m \<in> set (providerMethodsWithMetaAtKey discover STRIPE_CONNECT_WEBHOOK_HANDLER).
                 b = bind_method m"
    by auto
  from p s p' s' show ?thesis by (intro conjI)
qed

text \<open>With \<open>one_of_each\<close> and the primary secret alone, initialization completes.\<close>

theorem tables_follow_their_own_marker_witness:
  "mset [\<lparr> key = ''charge.succeeded'', handler = create (Some billing) 10 ''onCharge'' \<rparr>]
     = mset (map bind_method (providerMethodsWithMetaAtKey one_of_each STRIPE_WEBHOOK_HANDLER))
   \<and> mset [\<lparr> key = ''charge.succeeded'', handler = create (Some billing) 11 ''onConnectCharge'' \<rparr>]
     = mset (map bind_method (providerMethodsWithMetaAtKey one_of_each STRIPE_CONNECT_WEBHOOK_HANDLER))"
proof -
  have "outcome (onModuleInit one_of_each account_only)
     = Completed webhook_service
         [\<lparr> key = ''charge.succeeded'', handler = create (Some billing) 10 ''onCharge'' \<rparr>]
         [\<lparr> key = ''charge.succeeded'', handler = create (Some billing) 11 ''onConnectCharge'' \<rparr>]"
    by (simp add: onModuleInit_def one_of_each_def account_only_def first_instance_def
      service_class_def webhook_service_def webhookHandlers_def ConnectWebhookHandlers_def
      register_single bind_method_def onCharge_def onConnectCharge_def billing_class_def)
  from tables_follow_their_own_marker [OF this] show ?thesis
    by blast
qed

text \<open>
  Claim C3 says that with the primary secret alone the connect-tagged method is not
  registered and a connect dispatch of its event type is a no-op. The second discovery
  pass does not look at the secrets: the connect table holds the connect-tagged method,
  and a connect dispatch of \<open>charge.succeeded\<close> calls it.
\<close>

theorem connect_table_not_empty:
  "outcome (onModuleInit one_of_each account_only)
     = Completed webhook_service
         [\<lparr> key = ''charge.succeeded'', handler = create (Some billing) 10 ''onCharge'' \<rparr>]
         [\<lparr> key = ''charge.succeeded'', handler = create (Some billing) 11 ''onConnectCharge'' \<rparr>]
   \<and> invoked (actions (ConnectHandleWebhook account_only all_succeed
         [\<lparr> key = ''charge.succeeded'', handler = create (Some billing) 11 ''onConnectCharge'' \<rparr>]
         \<lparr> type = ''charge.succeeded'' \<rparr>))
     = [create (Some billing) 11 ''onConnectCharge'']"
  by (simp add: onModuleInit_def one_of_each_def account_only_def first_instance_def
      service_class_def webhook_service_def webhookHandlers_def ConnectWebhookHandlers_def
      register_single bind_method_def onCharge_def onConnectCharge_def billing_class_def
      ConnectHandleWebhook_def logMatching_def)

text \<open>
  Claim C3, amended. When only the primary secret is configured and the discovery
  service reports one method under the primary marker and one under the connect
  marker, both with the same event type, initialization registers both, each in its own
  table: a primary dispatch of that event type calls the primary-tagged method once
  (and only it), and a connect dispatch of the same type calls the connect-tagged
  method once (and only it).
\<close>

theorem one_secret_registers_both:
  assumes "webhookConfig cfg = Some wc"
      and "account (stripeSecrets wc) = Some s" and "s \<noteq> []"
      and "connect (stripeSecrets wc) = None"
      and "first_instance (providersWithMetaAtKey discover STRIPE_WEBHOOK_SERVICE) = Some service"
      and "instanceof_StripeWebhookService service"
      and "providerMethodsWithMetaAtKey discover STRIPE_WEBHOOK_HANDLER
             = [\<lparr> discoveredMethod = m1, meta = t \<rparr>]"
      and "providerMethodsWithMetaAtKey discover STRIPE_CONNECT_WEBHOOK_HANDLER
             = [\<lparr> discoveredMethod = m2, meta = t \<rparr>]"
      and "b1 = bind_method \<lparr> discoveredMethod = m1, meta = t \<rparr>"
      and "b2 = bind_method \<lparr> discoveredMethod = m2, meta = t \<rparr>"
  shows "outcome (onModuleInit discover cfg) = Completed service [b1] [b2]
       \<and> invoked (actions (handleWebhook cfg user [b1] \<lparr> type = t \<rparr>)) = [handler b1]
       \<and> invoked (actions (ConnectHandleWebhook cfg user [b2] \<lparr> type = t \<rparr>)) = [handler b2]"
proof -
  have "outcome (onModuleInit discover cfg) = Completed service [b1] [b2]"
    using assms
    by (simp add: onModuleInit_def webhookHandlers_def ConnectWebhookHandlers_def register_single)
  moreover have "key b1 = t" "key b2 = t"
    using assms(9,10) by (simp_all add: bind_method_def)
  then have "invoked (actions (handleWebhook cfg user [b1] \<lparr> type = t \<rparr>)) = [handler b1]"
        and "invoked (actions (ConnectHandleWebhook cfg user [b2] \<lparr> type = t \<rparr>)) = [handler b2]"
    by (simp_all add: handleWebhook_invoked [OF disjI1 [OF refl]]
          handleWebhook_invoked [OF disjI2 [OF refl]])
  ultimately show ?thesis by simp
qed

text \<open>The discovery results \<open>one_of_each\<close> with the configuration \<open>account_only\<close>.\<close>

theorem one_secret_registers_both_witness:
  "outcome (onModuleInit one_of_each account_only)
     = Completed webhook_service
         [bind_method \<lparr> discoveredMethod = onCharge, meta = ''charge.succeeded'' \<rparr>]
         [bind_method \<lparr> discoveredMethod = onConnectCharge, meta = ''charge.succeeded'' \<rparr>]
   \<and> invoked (actions (handleWebhook account_only all_succeed
         [bind_method \<lparr> discoveredMethod = onCharge, meta = ''charge.succeeded'' \<rparr>]
         \<lparr> type = ''charge.succeeded'' \<rparr>))
     = [handler (bind_method \<lparr> discoveredMethod = onCharge, meta = ''charge.succeeded'' \<rparr>)]
   \<and> invoked (actions (ConnectHandleWebhook account_only all_succeed
         [bind_method \<lparr> discoveredMethod = onConnectCharge, meta = ''charge.succeeded'' \<rparr>]
         \<lparr> type = ''charge.succeeded'' \<rparr>))
     = [handler (bind_method \<lparr> discoveredMethod = onConnectCharge, meta = ''charge.succeeded'' \<rparr>)]"
  by (rule one_secret_registers_both [of account_only "the (webhookConfig account_only)"
         "''whsec_a''" one_of_each webhook_service onCharge "''charge.succeeded''" onConnectCharge])
     (simp_all add: account_only_def one_of_each_def first_instance_def service_class_def
         webhook_service_def)

section \<open>Dispatch\<close>

text \<open>
  Claim C7. When no entry of the table has the event's type as key, either dispatch
  function does nothing (no log line, no handler called, nothing awaited) and the
  promise it returns is fulfilled at tick \<open>0\<close>.
\<close>

theorem no_match_is_noop:
  assumes "filter (\<lambda>x. key x = type ev) table = []"
  shows "handleWebhook cfg user table ev = \<lparr> actions = [], completion = Settled 0 Fulfilled \<rparr>
       \<and> ConnectHandleWebhook cfg user table ev = \<lparr> actions = [], completion = Settled 0 Fulfilled \<rparr>"
  using assms by (simp add: handleWebhook_def ConnectHandleWebhook_def)

text \<open>No entry of \<open>three_bindings\<close> is for \<open>customer.created\<close>.\<close>

theorem no_match_is_noop_witness:
  "handleWebhook account_only one_throws three_bindings \<lparr> type = ''customer.created'' \<rparr>
     = \<lparr> actions = [], completion = Settled 0 Fulfilled \<rparr>
   \<and> ConnectHandleWebhook account_only one_throws three_bindings \<lparr> type = ''customer.created'' \<rparr>
     = \<lparr> actions = [], completion = Settled 0 Fulfilled \<rparr>"
  using no_match_is_noop [of "\<lparr> type = ''customer.created'' \<rparr>" three_bindings account_only one_throws]
  by (simp add: three_bindings_def)

text \<open>
  Claim C6. When \<open>N \<ge> 1\<close> entries of the table match the event's type, a dispatch calls
  the handler at every matching position of the table exactly once, in table order
  (so \<open>N\<close> calls), and what it does is: at most a log line, then the \<open>N\<close> calls, then
  the one \<open>await\<close>. Every handler is started before anything is awaited.
\<close>

theorem fan_out_before_await:
  assumes "r = handleWebhook cfg user table ev \<or> r = ConnectHandleWebhook cfg user table ev"
      and "hs = filter (\<lambda>x. key x = type ev) table"
      and "1 \<le> length hs"
  shows "invoked (actions r) =
           map (\<lambda>i. handler (table ! i))
             (filter (\<lambda>i. key (table ! i) = type ev) [0..<length table])
         \<and> length (invoked (actions r)) = length hs
         \<and> (\<exists>logs. actions r = map Log logs @ map (\<lambda>x. Invoke (handler x)) hs @ [Await])"
proof -
  from assms(3) have ne: "hs \<noteq> []" by auto
  have inv: "invoked (actions r) = map handler hs"
    using handleWebhook_invoked [OF assms(1)] assms(2) by simp
  have "hs = map (\<lambda>i. table ! i) (filter (\<lambda>i. key (table ! i) = type ev) [0..<length table])"
    unfolding assms(2) by (rule filter_by_index)
  then have "map handler hs =
      map (\<lambda>i. handler (table ! i)) (filter (\<lambda>i. key (table ! i) = type ev) [0..<length table])"
    by (metis (no_types, lifting) map_map comp_apply map_eq_conv)
  with inv have by_index: "invoked (actions r) =
      map (\<lambda>i. handler (table ! i)) (filter (\<lambda>i. key (table ! i) = type ev) [0..<length table])"
    by simp
  from inv have len: "length (invoked (actions r)) = length hs"
    by simp
  from by_index len handleWebhook_unfold(2) [OF assms(1,2) ne] show ?thesis
    by blast
qed

text \<open>Two of the three entries of \<open>three_bindings\<close> are for \<open>invoice.paid\<close>.\<close>

theorem fan_out_before_await_witness:
  "invoked (actions (handleWebhook account_only all_succeed three_bindings invoice_paid))
     = [first_paid, second_paid]
   \<and> length (invoked (actions (handleWebhook account_only all_succeed three_bindings invoice_paid))) = 2"
proof -
  let ?r = "handleWebhook account_only all_succeed three_bindings invoice_paid"
  let ?hs = "filter (\<lambda>x. key x = type invoice_paid) three_bindings"
  have hs: "?hs = [\<lparr> key = ''invoice.paid'', handler = first_paid \<rparr>,
                   \<lparr> key = ''invoice.paid'', handler = second_paid \<rparr>]"
    by (simp add: three_bindings_def invoice_paid_def)
  have one: "1 \<le> length ?hs" by (simp add: hs)
  note inst = fan_out_before_await [of ?r account_only all_succeed three_bindings invoice_paid ?hs,
        OF disjI1 [OF refl] refl one]
  have idx: "map (\<lambda>i. handler (three_bindings ! i))
             (filter (\<lambda>i. key (three_bindings ! i) = type invoice_paid) [0..<length three_bindings])
      = [first_paid, second_paid]"
    by (simp add: three_bindings_def invoice_paid_def upt_rec nth_Cons')
  from inst have "invoked (actions ?r) = [first_paid, second_paid]"
    unfolding idx by (rule conjunct1)
  moreover from inst have "length (invoked (actions ?r)) = length ?hs"
    by blast
  ultimately show ?thesis
    by (simp add: hs)
qed

text \<open>
  Claim C1 says that a handler that throws or rejects leaves the dispatch call resolved.
  It does not: of the two handlers for \<open>invoice.paid\<close>, the first throws \<open>boom\<close>, and
  the promise of the dispatch call is rejected with \<open>boom\<close>.
\<close>

theorem rejection_reaches_the_caller:
  "completion (handleWebhook account_only one_throws three_bindings invoice_paid)
     = Settled 0 (Rejected ''boom'')"
  by (simp add: handleWebhook_def three_bindings_def invoice_paid_def Promise_all_def
        call_handler_def one_throws_def first_paid_def second_paid_def create_def)

text \<open>
  Claim C1, amended. When one of the matching handlers throws or rejects (at tick \<open>t\<close>),
  every matching handler has still been called, once each and in table order, and the
  dispatch call is rejected, no later than tick \<open>t\<close>.
\<close>

theorem one_failure_rejects_dispatch:
  assumes "r = handleWebhook cfg user table ev \<or> r = ConnectHandleWebhook cfg user table ev"
      and "x \<in> set table" and "key x = type ev"
      and "call_handler user (handler x) ev = Settled t (Rejected e)"
  shows "invoked (actions r) = map handler (filter (\<lambda>y. key y = type ev) table)
         \<and> (\<exists>t' e'. t' \<le> t \<and> completion r = Settled t' (Rejected e'))"
proof -
  let ?hs = "filter (\<lambda>y. key y = type ev) table"
  let ?ps = "map (\<lambda>y. call_handler user (handler y) ev) ?hs"
  from assms(2,3) have x: "x \<in> set ?hs" by simp
  then have ne: "?hs \<noteq> []" by (metis empty_iff list.set(1))
  from x assms(4) have mem: "Settled t (Rejected e) \<in> set ?ps" by force
  then have "first_rejection ?ps \<noteq> None"
    by (simp only: first_rejection_None) blast
  then obtain t' e' where fr: "first_rejection ?ps = Some (t', e')" by auto
  from first_rejection_least [OF fr mem] have "t' \<le> t" .
  moreover have "completion r = Settled t' (Rejected e')"
    using handleWebhook_unfold(1) [OF assms(1) refl ne] fr
    by (simp add: Promise_all_Rejected)
  ultimately show ?thesis
    using handleWebhook_invoked [OF assms(1)] by blast
qed

text \<open>The first of the two handlers for \<open>invoice.paid\<close> throws; both are called.\<close>

theorem one_failure_rejects_dispatch_witness:
  "invoked (actions (handleWebhook account_only one_throws three_bindings invoice_paid))
     = [first_paid, second_paid]
   \<and> (\<exists>t' e'. t' \<le> 0 \<and>
         completion (handleWebhook account_only one_throws three_bindings invoice_paid)
           = Settled t' (Rejected e'))"
proof -
  let ?x = "\<lparr> key = ''invoice.paid'', handler = first_paid \<rparr>"
  have "?x \<in> set three_bindings" "key ?x = type invoice_paid"
    by (simp_all add: three_bindings_def invoice_paid_def)
  moreover have "call_handler one_throws (handler ?x) invoice_paid = Settled 0 (Rejected ''boom'')"
    by (simp add: call_handler_def one_throws_def first_paid_def create_def)
  ultimately show ?thesis
    using one_failure_rejects_dispatch [of _ account_only one_throws three_bindings invoice_paid ?x 0 "''boom''",
            OF disjI1 [OF refl]]
    by (simp add: three_bindings_def invoice_paid_def)
qed

text \<open>
  Claim C2 says that the dispatch call settles only after all its handlers have. It
  does not: the first handler rejects at tick 1, and the dispatch call is rejected at
  tick 1, while the second handler, called as well, settles at tick 5.
\<close>

theorem settles_before_a_sibling:
  "completion (handleWebhook account_only one_rejects_early three_bindings invoice_paid)
     = Settled 1 (Rejected ''declined'')
   \<and> invoked (actions (handleWebhook account_only one_rejects_early three_bindings invoice_paid))
     = [first_paid, second_paid]
   \<and> call_handler one_rejects_early second_paid invoice_paid = Settled 5 Fulfilled"
  by (simp add: handleWebhook_def three_bindings_def invoice_paid_def Promise_all_def
        call_handler_def one_rejects_early_def first_paid_def second_paid_def create_def
        account_only_def logMatching_def)

text \<open>
  Claim C2, amended. With \<open>N \<ge> 1\<close> matching handlers, the outcome of the dispatch
  call is that of \<open>Promise.all\<close>, a join-all barrier on success only.

  \<^item> If every matching handler is fulfilled, the dispatch call is fulfilled, at the tick
    the last of them is; and it is fulfilled at a tick \<open>t\<close> only if every matching handler
    is fulfilled by \<open>t\<close>, one of them at \<open>t\<close>.
  \<^item> If a matching handler is rejected, the dispatch call is rejected, at the tick of the
    earliest rejection and with the reason of a handler rejected at that tick, whether
    or not the other handlers have settled; and it is rejected at \<open>t\<close> with \<open>e\<close> only if a
    matching handler is rejected at \<open>t\<close> with \<open>e\<close> and none earlier.
\<close>

theorem join_all_on_success_only:
  assumes "r = handleWebhook cfg user table ev \<or> r = ConnectHandleWebhook cfg user table ev"
      and "hs = filter (\<lambda>x. key x = type ev) table"
      and "1 \<le> length hs"
  shows "(completion r = Settled t Fulfilled \<longrightarrow>
            (\<forall>x \<in> set hs. \<exists>u\<le>t. call_handler user (handler x) ev = Settled u Fulfilled)
            \<and> (\<exists>x \<in> set hs. call_handler user (handler x) ev = Settled t Fulfilled))
       \<and> (completion r = Settled t (Rejected e) \<longrightarrow>
            (\<exists>x \<in> set hs. call_handler user (handler x) ev = Settled t (Rejected e))
            \<and> (\<forall>x \<in> set hs. \<forall>u e'.
                  call_handler user (handler x) ev = Settled u (Rejected e') \<longrightarrow> t \<le> u))
       \<and> ((\<forall>x \<in> set hs. \<exists>u. call_handler user (handler x) ev = Settled u Fulfilled) \<longrightarrow>
            (\<exists>t'. completion r = Settled t' Fulfilled
               \<and> (\<forall>x \<in> set hs. \<exists>u\<le>t'. call_handler user (handler x) ev = Settled u Fulfilled)
               \<and> (\<exists>x \<in> set hs. call_handler user (handler x) ev = Settled t' Fulfilled)))
       \<and> ((\<exists>x \<in> set hs. \<exists>u e'. call_handler user (handler x) ev = Settled u (Rejected e')) \<longrightarrow>
            (\<exists>t' e'. completion r = Settled t' (Rejected e')
               \<and> (\<exists>x \<in> set hs. call_handler user (handler x) ev = Settled t' (Rejected e'))
               \<and> (\<forall>x \<in> set hs. \<forall>u e''.
                     call_handler user (handler x) ev = Settled u (Rejected e'') \<longrightarrow> t' \<le> u)))"
proof -
  let ?ps = "map (\<lambda>x. call_handler user (handler x) ev) hs"
  from assms(3) have ne: "hs \<noteq> []" by auto
  have c: "completion r = Promise_all ?ps"
    by (rule handleWebhook_unfold(1) [OF assms(1,2) ne])
  have ok: "(\<forall>x \<in> set hs. \<exists>u\<le>s. call_handler user (handler x) ev = Settled u Fulfilled)
            \<and> (\<exists>x \<in> set hs. call_handler user (handler x) ev = Settled s Fulfilled)"
    if "completion r = Settled s Fulfilled" for s
  proof -
    from that c have a: "all_fulfilled_by ?ps = Some s"
      by (simp add: Promise_all_Fulfilled)
    have "\<forall>x \<in> set hs. \<exists>u\<le>s. call_handler user (handler x) ev = Settled u Fulfilled"
      using all_fulfilled_by_bound [OF a] by simp
    moreover from ne have "?ps \<noteq> []" by simp
    from all_fulfilled_by_attained [OF a this]
    have "\<exists>x \<in> set hs. call_handler user (handler x) ev = Settled s Fulfilled"
      by auto
    ultimately show ?thesis by blast
  qed
  have bad: "(\<exists>x \<in> set hs. call_handler user (handler x) ev = Settled s (Rejected d))
            \<and> (\<forall>x \<in> set hs. \<forall>u e'.
                  call_handler user (handler x) ev = Settled u (Rejected e') \<longrightarrow> s \<le> u)"
    if "completion r = Settled s (Rejected d)" for s d
  proof -
    from that c have fr: "first_rejection ?ps = Some (s, d)"
      by (simp add: Promise_all_Rejected)
    from first_rejection_mem [OF fr]
    have "\<exists>x \<in> set hs. call_handler user (handler x) ev = Settled s (Rejected d)"
      by auto
    moreover have "\<forall>x \<in> set hs. \<forall>u e'.
                  call_handler user (handler x) ev = Settled u (Rejected e') \<longrightarrow> s \<le> u"
    proof (intro ballI allI impI)
      fix x u e'
      assume "x \<in> set hs" "call_handler user (handler x) ev = Settled u (Rejected e')"
      then have "Settled u (Rejected e') \<in> set ?ps" by force
      from first_rejection_least [OF fr this] show "s \<le> u" .
    qed
    ultimately show ?thesis by blast
  qed
  have succeeds: "\<exists>t'. completion r = Settled t' Fulfilled"
    if "\<forall>x \<in> set hs. \<exists>u. call_handler user (handler x) ev = Settled u Fulfilled"
  proof -
    from that have "\<forall>p \<in> set ?ps. \<exists>u. p = Settled u Fulfilled" by auto
    from all_fulfilled_by_total [OF this] obtain t' where "all_fulfilled_by ?ps = Some t'" ..
    with c show ?thesis by (simp add: Promise_all_Fulfilled)
  qed
  have fails: "\<exists>t' e'. completion r = Settled t' (Rejected e')"
    if "\<exists>x \<in> set hs. \<exists>u e'. call_handler user (handler x) ev = Settled u (Rejected e')"
  proof -
    from that obtain u e' where "Settled u (Rejected e') \<in> set ?ps" by force
    then have "first_rejection ?ps \<noteq> None"
      by (simp only: first_rejection_None) blast
    then obtain t' d where "first_rejection ?ps = Some (t', d)" by auto
    with c show ?thesis by (simp add: Promise_all_Rejected)
  qed
  have p1: "completion r = Settled t Fulfilled \<longrightarrow>
            (\<forall>x \<in> set hs. \<exists>u\<le>t. call_handler user (handler x) ev = Settled u Fulfilled)
            \<and> (\<exists>x \<in> set hs. call_handler user (handler x) ev = Settled t Fulfilled)"
    using ok [of t] by (rule impI)
  have p2: "completion r = Settled t (Rejected e) \<longrightarrow>
            (\<exists>x \<in> set hs. call_handler user (handler x) ev = Settled t (Rejected e))
            \<and> (\<forall>x \<in> set hs. \<forall>u e'.
                  call_handler user (handler x) ev = Settled u (Rejected e') \<longrightarrow> t \<le> u)"
    using bad [of t e] by (rule impI)
  have p3: "(\<forall>x \<in> set hs. \<exists>u. call_handler user (handler x) ev = Settled u Fulfilled) \<longrightarrow>
            (\<exists>t'. completion r = Settled t' Fulfilled
               \<and> (\<forall>x \<in> set hs. \<exists>u\<le>t'. call_handler user (handler x) ev = Settled u Fulfilled)
               \<and> (\<exists>x \<in> set hs. call_handler user (handler x) ev = Settled t' Fulfilled))"
  proof
    assume "\<forall>x \<in> set hs. \<exists>u. call_handler user (handler x) ev = Settled u Fulfilled"
    from succeeds [OF this] obtain t' where t': "completion r = Settled t' Fulfilled" ..
    from ok [OF t'] t' show "\<exists>t'. completion r = Settled t' Fulfilled
               \<and> (\<forall>x \<in> set hs. \<exists>u\<le>t'. call_handler user (handler x) ev = Settled u Fulfilled)
               \<and> (\<exists>x \<in> set hs. call_handler user (handler x) ev = Settled t' Fulfilled)"
      by (intro exI [of _ t'] conjI) (rule t', rule conjunct1, assumption, rule conjunct2, assumption)
  qed
  have p4: "(\<exists>x \<in> set hs. \<exists>u e'. call_handler user (handler x) ev = Settled u (Rejected e')) \<longrightarrow>
            (\<exists>t' e'. completion r = Settled t' (Rejected e')
               \<and> (\<exists>x \<in> set hs. call_handler user (handler x) ev = Settled t' (Rejected e'))
               \<and> (\<forall>x \<in> set hs. \<forall>u e''.
                     call_handler user (handler x) ev = Settled u (Rejected e'') \<longrightarrow> t' \<le> u))"
  proof
    assume "\<exists>x \<in> set hs. \<exists>u e'. call_handler user (handler x) ev = Settled u (Rejected e')"
    from fails [OF this] obtain t' d where d: "completion r = Settled t' (Rejected d)" by blast
    from bad [OF d] d show "\<exists>t' e'. completion r = Settled t' (Rejected e')
               \<and> (\<exists>x \<in> set hs. call_handler user (handler x) ev = Settled t' (Rejected e'))
               \<and> (\<forall>x \<in> set hs. \<forall>u e''.
                     call_handler user (handler x) ev = Settled u (Rejected e'') \<longrightarrow> t' \<le> u)"
      by (intro exI [of _ t'] exI [of _ d] conjI) (rule d, rule conjunct1, assumption, rule conjunct2, assumption)
  qed
  from p1 p2 p3 p4 show ?thesis
    by (intro conjI)
qed

text \<open>
  Both handlers for \<open>invoice.paid\<close> succeed, the later one at tick 4: the dispatch is
  fulfilled at tick 4. The first rejects at tick 1 and the second succeeds at tick 5:
  the dispatch is rejected at tick 1.
\<close>

theorem join_all_on_success_only_witness:
  "completion (handleWebhook account_only all_succeed three_bindings invoice_paid)
     = Settled 4 Fulfilled
   \<and> (\<exists>u\<le>4. call_handler all_succeed first_paid invoice_paid = Settled u Fulfilled)
   \<and> completion (handleWebhook account_only one_rejects_early three_bindings invoice_paid)
     = Settled 1 (Rejected ''declined'')"
proof -
  let ?r = "handleWebhook account_only all_succeed three_bindings invoice_paid"
  let ?q = "handleWebhook account_only one_rejects_early three_bindings invoice_paid"
  let ?hs = "filter (\<lambda>x. key x = type invoice_paid) three_bindings"
  have hs: "?hs = [\<lparr> key = ''invoice.paid'', handler = first_paid \<rparr>,
                   \<lparr> key = ''invoice.paid'', handler = second_paid \<rparr>]"
    by (simp add: three_bindings_def invoice_paid_def)
  have one: "1 \<le> length ?hs" by (simp add: hs)
  have good: "call_handler all_succeed first_paid invoice_paid = Settled 2 Fulfilled"
             "call_handler all_succeed second_paid invoice_paid = Settled 4 Fulfilled"
    by (simp_all add: call_handler_def all_succeed_def first_paid_def second_paid_def create_def)
  have early: "call_handler one_rejects_early first_paid invoice_paid = Settled 1 (Rejected ''declined'')"
              "call_handler one_rejects_early second_paid invoice_paid = Settled 5 Fulfilled"
    by (simp_all add: call_handler_def one_rejects_early_def first_paid_def second_paid_def create_def)
  note success = join_all_on_success_only [of ?r account_only all_succeed three_bindings
         invoice_paid ?hs 0 "[]", OF disjI1 [OF refl] refl one, unfolded hs]
  note failure = join_all_on_success_only [of ?q account_only one_rejects_early three_bindings
         invoice_paid ?hs 0 "[]", OF disjI1 [OF refl] refl one, unfolded hs]
  from success have a: "completion ?r = Settled 4 Fulfilled"
    by (auto simp: good)
  from failure have b: "completion ?q = Settled 1 (Rejected ''declined'')"
    by (auto simp: early)
  from a b good show ?thesis by simp
qed

end
